theory Spec2Isabelle
  imports Complex_Main "HOL-Library.AList" "HOL-Library.Sublist"
begin

section \<open>Exceptions\<close>

text \<open>
  The exceptions that the modelled code raises: \<open>ircBotException\<close> is the class of
  \<^verbatim>\<open>irc_bot.py\<close>; \<open>KeyError\<close> is what a subscript or a \<^verbatim>\<open>del\<close> on a dict
  without the key raises; \<open>AttributeError\<close> is what an attribute access on
  \<^verbatim>\<open>None\<close> raises; \<open>AssertionError\<close> is a failed \<^verbatim>\<open>assert\<close>.
\<close>

datatype exn = ircBotException | KeyError | AttributeError | AssertionError

section \<open>ExponentialBackoff (irc\_bot.py)\<close>

text \<open>
  The strategy object. \<open>attempt_count\<close> is the iterator \<^verbatim>\<open>itertools.count(1)\<close>: the
  field holds the value that the next call of \<^verbatim>\<open>next(self.attempt_count)\<close> returns.
\<close>

record ExponentialBackoff =
  min_interval :: int
  max_interval :: int
  check_scheduled :: bool
  attempt_count :: nat

text \<open>
  \<^verbatim>\<open>__init__(**attrs)\<close>: the two bounds may be overridden, the assertion is checked, the
  flag is cleared and the counter starts at 1.
\<close>

definition ExponentialBackoff_init :: "int \<Rightarrow> int \<Rightarrow> exn + ExponentialBackoff" where
  "ExponentialBackoff_init mn mx =
     (if 0 \<le> mn \<and> mn \<le> mx
      then Inr \<lparr>min_interval = mn, max_interval = mx,
                check_scheduled = False, attempt_count = 1\<rparr>
      else Inl AssertionError)"

text \<open>\<^verbatim>\<open>ExponentialBackoff()\<close> with the class attributes 3 and 5.\<close>

definition default_backoff :: ExponentialBackoff where
  "default_backoff =
     \<lparr>min_interval = 3, max_interval = 5, check_scheduled = False, attempt_count = 1\<rparr>"

text \<open>\<^verbatim>\<open>next(self.attempt_count)\<close>: returns the current value and advances the iterator.\<close>

definition next_attempt :: "ExponentialBackoff \<Rightarrow> nat \<times> ExponentialBackoff" where
  "next_attempt s = (attempt_count s, s\<lparr>attempt_count := Suc (attempt_count s)\<rparr>)"

text \<open>Python's \<^verbatim>\<open>int(x)\<close> on a number: truncation towards zero.\<close>

definition py_int :: "real \<Rightarrow> int" where
  "py_int x = (if 0 \<le> x then \<lfloor>x\<rfloor> else \<lceil>x\<rceil>)"

text \<open>
  \<^verbatim>\<open>run(self, bot)\<close>. The value of \<^verbatim>\<open>random.random()\<close> is the argument \<open>jitter\<close>,
  a real number in \<open>[0, 1)\<close>; it is read only on the scheduling path. The result
  pairs the strategy after the call with what the call did: \<open>Inl e\<close> when it raised,
  \<open>Inr None\<close> when it returned because a check was already scheduled, and
  \<open>Inr (Some d)\<close> when it called \<^verbatim>\<open>execute_after(d, self.check)\<close>.
\<close>

definition run :: "ExponentialBackoff \<Rightarrow> real \<Rightarrow> ExponentialBackoff \<times> (exn + int option)" where
  "run s jitter =
     (let (a, s1) = next_attempt s in
      if a > 5 then (s1, Inl ircBotException)
      else if check_scheduled s1 then (s1, Inr None)
      else
        (let (b, s2) = next_attempt s1;
             intvl = 2 ^ b - 1;
             intvl = min intvl (max_interval s2);
             intvl = py_int (of_int intvl * jitter);
             intvl = max intvl (min_interval s2)
         in (s2\<lparr>check_scheduled := True\<rparr>, Inr (Some intvl))))"

text \<open>
  \<^verbatim>\<open>check(self)\<close>, the scheduled callback: \<open>is_connected\<close> is what
  \<^verbatim>\<open>self.bot.connection.is_connected()\<close> answers. The call of \<^verbatim>\<open>jump_server\<close> after
  \<open>run\<close> acts on the connection and not on the strategy.
\<close>

definition check :: "ExponentialBackoff \<Rightarrow> bool \<Rightarrow> real \<Rightarrow> ExponentialBackoff \<times> (exn + int option)" where
  "check s is_connected jitter =
     (let s1 = s\<lparr>check_scheduled := False\<rparr> in
      if \<not> is_connected then run s1 jitter else (s1, Inr None))"

text \<open>
  A connection that never comes back invokes \<open>run\<close> again and again, either from the
  disconnect handler or from the scheduled check, which clears the flag first.
\<close>

datatype trigger = Disconnected | CheckFired

definition invoke ::
  "ExponentialBackoff \<Rightarrow> trigger \<times> real \<Rightarrow> ExponentialBackoff \<times> (exn + int option)" where
  "invoke s p =
     (case fst p of Disconnected \<Rightarrow> run s (snd p)
                  | CheckFired \<Rightarrow> check s False (snd p))"

text \<open>The outcomes of successive invocations, each with its own jitter draw.\<close>

fun run_all :: "ExponentialBackoff \<Rightarrow> (trigger \<times> real) list \<Rightarrow> (exn + int option) list" where
  "run_all s [] = []"
| "run_all s (p # ps) = (let (s', r) = invoke s p in r # run_all s' ps)"

text \<open>
  The delay as section 4.1 of the specification words it: the capped exponential term,
  times the jitter, truncated, then raised to the lower bound.
\<close>

definition backoffDelay :: "nat \<Rightarrow> int \<Rightarrow> int \<Rightarrow> real \<Rightarrow> int" where
  "backoffDelay attempt mn mx jitter =
     max mn (py_int (of_int (min (2 ^ attempt - 1) mx) * jitter))"

section \<open>Channel\<close>

text \<open>
  Modelled from the spec: the class \<open>Channel\<close> is imported from the \<^verbatim>\<open>irc\<close> library
  (\<^verbatim>\<open>from irc.bot import Channel\<close>) and its source is not part of the repository. The
  handlers call \<^verbatim>\<open>Channel()\<close>, \<^verbatim>\<open>add_user\<close>, \<^verbatim>\<open>remove_user\<close>, \<^verbatim>\<open>has_user\<close> and
  \<^verbatim>\<open>change_nick\<close>. Section 3 of the specification gives a channel a set of member
  nicknames, a mapping from nickname to a set of role-flags, and channel-level mode flags
  with optional arguments; section 4.2 says what the operations do: add a nick to the
  member set, remove a nick from the member set and drop its role-flags, rename a member
  preserving its role-flags. The member set is kept as the list of its elements in
  insertion order, and the mapping as the list of its entries (nickname, role-flag), so
  that uniqueness is a property to be proved and not one of the type. A nickname is an
  opaque key compared by equality.
\<close>

record Channel =
  members :: "string list"
  role_flags :: "(string \<times> char) list"
  mode_flags :: "(char \<times> string option) list"

text \<open>Modelled from the spec: \<^verbatim>\<open>Channel()\<close>, the empty channel that a join creates.\<close>

definition Channel_new :: Channel where
  "Channel_new = \<lparr>members = [], role_flags = [], mode_flags = []\<rparr>"

text \<open>Modelled from the spec: \<^verbatim>\<open>has_user\<close>, whether the nick is in the member set.\<close>

definition has_user :: "string \<Rightarrow> Channel \<Rightarrow> bool" where
  "has_user nick c = (nick \<in> set (members c))"

text \<open>Modelled from the spec: \<^verbatim>\<open>add_user\<close> adds the nick to the member set.\<close>

definition add_user :: "string \<Rightarrow> Channel \<Rightarrow> Channel" where
  "add_user nick c =
     c\<lparr>members := (if nick \<in> set (members c) then members c else members c @ [nick])\<rparr>"

text \<open>
  Modelled from the spec: \<^verbatim>\<open>remove_user\<close> removes the nick from the member set and
  drops its role-flags.
\<close>

definition remove_user :: "string \<Rightarrow> Channel \<Rightarrow> Channel" where
  "remove_user nick c =
     c\<lparr>members := removeAll nick (members c),
       role_flags := filter (\<lambda>(n, f). n \<noteq> nick) (role_flags c)\<rparr>"

text \<open>
  Modelled from the spec: \<^verbatim>\<open>change_nick\<close> renames a member, preserving its role-flags.
  Renaming takes \<open>before\<close> out of the member set and puts \<open>after\<close> in; every role-flag
  entry of \<open>before\<close> becomes one of \<open>after\<close>. The handler calls it only on a channel
  that has \<open>before\<close>.
\<close>

definition change_nick :: "string \<Rightarrow> string \<Rightarrow> Channel \<Rightarrow> Channel" where
  "change_nick before after c =
     (let rest = removeAll before (members c) in
      c\<lparr>members := (if after \<in> set rest then rest else rest @ [after]),
        role_flags :=
          remdups (map (\<lambda>(n, f). (if n = before then after else n, f)) (role_flags c))\<rparr>)"

section \<open>SingleServerIRCBot (irc\_bot.py)\<close>

text \<open>
  The bot's state as far as the handlers below read or write it: \<open>channels\<close> is the
  dict \<^verbatim>\<open>self.channels\<close> (channel name to \<open>Channel\<close>) as an association list in
  insertion order, with \<open>AList.update\<close> for a subscript assignment and \<open>AList.delete\<close>
  for \<^verbatim>\<open>del\<close>; \<open>recon\<close> is \<^verbatim>\<open>self.recon\<close>. A channel name is an opaque key.
  Each handler takes as \<open>me\<close> what \<^verbatim>\<open>connection.get_nickname()\<close> returns when it
  runs, and returns the bot after the call together with the exception raised, if any.
\<close>

record SingleServerIRCBot =
  channels :: "(string \<times> Channel) list"
  recon :: ExponentialBackoff

definition SingleServerIRCBot_init :: "ExponentialBackoff \<Rightarrow> SingleServerIRCBot" where
  "SingleServerIRCBot_init r = \<lparr>channels = [], recon = r\<rparr>"

text \<open>\<^verbatim>\<open>_on_disconnect\<close>: the map is replaced by an empty one, then the strategy runs.\<close>

definition on_disconnect ::
  "SingleServerIRCBot \<Rightarrow> real \<Rightarrow> SingleServerIRCBot \<times> (exn + int option)" where
  "on_disconnect self jitter =
     (let self1 = self\<lparr>channels := []\<rparr>;
          (r, res) = run (recon self1) jitter
      in (self1\<lparr>recon := r\<rparr>, res))"

text \<open>
  \<^verbatim>\<open>_on_join\<close>: \<^verbatim>\<open>self.channels[ch]\<close> on the last line raises \<open>KeyError\<close> when the
  key is missing, before anything is added.
\<close>

definition on_join ::
  "string \<Rightarrow> string \<Rightarrow> string \<Rightarrow> SingleServerIRCBot \<Rightarrow> SingleServerIRCBot \<times> exn option" where
  "on_join me ch nick self =
     (let self1 = (if nick = me
                  then self\<lparr>channels := AList.update ch Channel_new (channels self)\<rparr>
                  else self)
      in case map_of (channels self1) ch of
           None \<Rightarrow> (self1, Some KeyError)
         | Some c \<Rightarrow>
             (self1\<lparr>channels := AList.update ch (add_user nick c) (channels self1)\<rparr>, None))"

text \<open>
  \<^verbatim>\<open>_on_kick\<close>: \<open>nick\<close> is \<^verbatim>\<open>event.arguments[0]\<close>, \<open>channel\<close> is \<^verbatim>\<open>event.target\<close>.
  Both \<^verbatim>\<open>del self.channels[channel]\<close> and the subscript raise \<open>KeyError\<close> when the
  key is missing.
\<close>

definition on_kick ::
  "string \<Rightarrow> string \<Rightarrow> string \<Rightarrow> SingleServerIRCBot \<Rightarrow> SingleServerIRCBot \<times> exn option" where
  "on_kick me channel nick self =
     (if nick = me
      then (case map_of (channels self) channel of
              None \<Rightarrow> (self, Some KeyError)
            | Some c \<Rightarrow> (self\<lparr>channels := AList.delete channel (channels self)\<rparr>, None))
      else (case map_of (channels self) channel of
              None \<Rightarrow> (self, Some KeyError)
            | Some c \<Rightarrow>
                (self\<lparr>channels := AList.update channel (remove_user nick c) (channels self)\<rparr>,
                 None)))"

text \<open>\<^verbatim>\<open>_on_part\<close>: \<open>nick\<close> is \<^verbatim>\<open>event.source.nick\<close>, \<open>channel\<close> is \<^verbatim>\<open>event.target\<close>.\<close>

definition on_part ::
  "string \<Rightarrow> string \<Rightarrow> string \<Rightarrow> SingleServerIRCBot \<Rightarrow> SingleServerIRCBot \<times> exn option" where
  "on_part me channel nick self =
     (if nick = me
      then (case map_of (channels self) channel of
              None \<Rightarrow> (self, Some KeyError)
            | Some c \<Rightarrow> (self\<lparr>channels := AList.delete channel (channels self)\<rparr>, None))
      else (case map_of (channels self) channel of
              None \<Rightarrow> (self, Some KeyError)
            | Some c \<Rightarrow>
                (self\<lparr>channels := AList.update channel (remove_user nick c) (channels self)\<rparr>,
                 None)))"

text \<open>\<^verbatim>\<open>_on_nick\<close>: the loop over \<^verbatim>\<open>self.channels.values()\<close>.\<close>

definition on_nick ::
  "string \<Rightarrow> string \<Rightarrow> SingleServerIRCBot \<Rightarrow> SingleServerIRCBot \<times> exn option" where
  "on_nick before after self =
     (self\<lparr>channels :=
            map (\<lambda>(name, c). (name, if has_user before c then change_nick before after c else c))
              (channels self)\<rparr>,
      None)"

text \<open>\<^verbatim>\<open>_on_quit\<close>: the loop over \<^verbatim>\<open>self.channels.values()\<close>.\<close>

definition on_quit :: "string \<Rightarrow> SingleServerIRCBot \<Rightarrow> SingleServerIRCBot \<times> exn option" where
  "on_quit nick self =
     (self\<lparr>channels :=
            map (\<lambda>(name, c). (name, if has_user nick c then remove_user nick c else c))
              (channels self)\<rparr>,
      None)"

text \<open>
  The membership events and their dispatch. An exception raised by a handler leaves the
  event loop, so a run of events stops there; \<open>states_reached\<close> lists every state on
  the way, the first one included.
\<close>

datatype event =
    Join string string
  | Part string string
  | Kick string string
  | Quit string
  | NickChange string string

fun handle_event :: "string \<Rightarrow> event \<Rightarrow> SingleServerIRCBot \<Rightarrow> SingleServerIRCBot \<times> exn option" where
  "handle_event me (Join ch nick) self = on_join me ch nick self"
| "handle_event me (Part ch nick) self = on_part me ch nick self"
| "handle_event me (Kick ch nick) self = on_kick me ch nick self"
| "handle_event me (Quit nick) self = on_quit nick self"
| "handle_event me (NickChange before after) self = on_nick before after self"

fun states_reached :: "SingleServerIRCBot \<Rightarrow> (string \<times> event) list \<Rightarrow> SingleServerIRCBot list" where
  "states_reached self [] = [self]"
| "states_reached self ((me, e) # es) =
     self # (case handle_event me e self of
              (self', None) \<Rightarrow> states_reached self' es
            | (self', Some x) \<Rightarrow> [self'])"

text \<open>
  The invariant of section 3: no nickname twice in a member set, and every role-flag
  entry names a member.
\<close>

definition channel_ok :: "Channel \<Rightarrow> bool" where
  "channel_ok c =
     (distinct (members c) \<and> (\<forall>(n, f) \<in> set (role_flags c). n \<in> set (members c)))"

definition tracker_ok :: "SingleServerIRCBot \<Rightarrow> bool" where
  "tracker_ok self = (\<forall>(name, c) \<in> set (channels self). channel_ok c)"

section \<open>urbit\_client (irc\_bridge.py)\<close>

text \<open>
  The wrapper around the Urbit session. \<open>client\<close> is \<^verbatim>\<open>self.client\<close>: \<open>Some h\<close> for
  the session object with handle \<open>h\<close>, \<open>None\<close> for Python's \<^verbatim>\<open>None\<close>. The other
  fields record what the wrapper did to the outside: \<open>opened\<close> counts the sessions
  created by \<^verbatim>\<open>quinnat.Quinnat(...)\<close>, \<open>deleted\<close> lists the sessions torn down by
  \<^verbatim>\<open>ship.delete()\<close>, \<open>posted\<close> lists the messages that \<^verbatim>\<open>post_message\<close> accepted,
  each with the session it went through.
\<close>

record urbit_client =
  client :: "nat option"
  opened :: nat
  deleted :: "nat list"
  posted :: "(nat \<times> string \<times> string \<times> string) list"

text \<open>
  What a call of \<^verbatim>\<open>post_message\<close> does is the library's business: it is a parameter
  \<open>post_message\<close> of the model, a function from the session and the three arguments to
  one of the two outcomes that \<open>send_message\<close> tells apart.
\<close>

datatype post_outcome = Posted | UnicodeDecodeError

text \<open>
  \<^verbatim>\<open>connect\<close> stores a new session in \<^verbatim>\<open>self.client\<close>; it has no \<^verbatim>\<open>return\<close>
  statement, so the call evaluates to \<^verbatim>\<open>None\<close>.
\<close>

definition connect :: "urbit_client \<Rightarrow> urbit_client" where
  "connect self = self\<lparr>client := Some (opened self), opened := Suc (opened self)\<rparr>"

definition urbit_client_init :: urbit_client where
  "urbit_client_init = connect \<lparr>client = None, opened = 0, deleted = [], posted = []\<rparr>"

text \<open>
  \<^verbatim>\<open>reconnect\<close>: \<^verbatim>\<open>self.client.ship.delete()\<close>, then
  \<^verbatim>\<open>self.client = self.connect()\<close>, which assigns the value of the call.
\<close>

definition reconnect :: "urbit_client \<Rightarrow> exn + urbit_client" where
  "reconnect self =
     (case client self of
        None \<Rightarrow> Inl AttributeError
      | Some h \<Rightarrow>
          (let self1 = self\<lparr>deleted := deleted self @ [h]\<rparr>;
               self2 = connect self1
           in Inr (self2\<lparr>client := None\<rparr>)))"

definition send_message ::
  "(nat \<Rightarrow> string \<Rightarrow> string \<Rightarrow> string \<Rightarrow> post_outcome) \<Rightarrow>
   string \<Rightarrow> string \<Rightarrow> string \<Rightarrow> urbit_client \<Rightarrow> exn + urbit_client" where
  "send_message post_message resource_ship channel message self =
     (case client self of
        None \<Rightarrow> Inl AttributeError
      | Some h \<Rightarrow>
          (case post_message h resource_ship channel message of
             Posted \<Rightarrow>
               Inr (self\<lparr>posted := posted self @ [(h, resource_ship, channel, message)]\<rparr>)
           | UnicodeDecodeError \<Rightarrow> reconnect self))"

text \<open>
  A session whose \<^verbatim>\<open>post_message\<close> fails to decode exactly when the text is \<open>bad\<close>.
\<close>

definition fails_on :: "string \<Rightarrow> nat \<Rightarrow> string \<Rightarrow> string \<Rightarrow> string \<Rightarrow> post_outcome" where
  "fails_on bad h resource_ship channel message =
     (if message = bad then UnicodeDecodeError else Posted)"

text \<open>
  A session whose \<^verbatim>\<open>post_message\<close> fails to decode exactly when the message goes to
  the resource of \<open>ship\<close>.
\<close>

definition fails_at :: "string \<Rightarrow> nat \<Rightarrow> string \<Rightarrow> string \<Rightarrow> string \<Rightarrow> post_outcome" where
  "fails_at ship h resource_ship channel message =
     (if resource_ship = ship then UnicodeDecodeError else Posted)"

section \<open>BridgeIrcBot.on\_pubmsg (irc\_bot.py)\<close>

text \<open>An entry of \<^verbatim>\<open>instance["channels"]\<close>, a dict with these three keys.\<close>

record pairing =
  irc_channel :: string
  resource_ship :: string
  urbit_channel :: string

text \<open>\<^verbatim>\<open>e.source.split("!")[0]\<close>: the text before the first exclamation mark.\<close>

definition source_nick :: "string \<Rightarrow> string" where
  "source_nick source = takeWhile (\<lambda>c. c \<noteq> CHR ''!'') source"

text \<open>
  The loop of \<open>on_pubmsg\<close> over the matching pairings. \<open>sink\<close> is the method
  \<^verbatim>\<open>self.urbit_client.send_message\<close> of whatever sink the bot was given, acting on a
  sink state \<open>u\<close>; the first component of the result lists the calls made, in order, and
  an exception raised by a call ends the loop.
\<close>

fun send_each ::
  "(string \<Rightarrow> string \<Rightarrow> string \<Rightarrow> 'u \<Rightarrow> exn + 'u) \<Rightarrow> string \<Rightarrow> pairing list \<Rightarrow> 'u \<Rightarrow>
   (string \<times> string \<times> string) list \<times> (exn + 'u)" where
  "send_each sink text [] u = ([], Inr u)"
| "send_each sink text (chan # rest) u =
     (let call = (resource_ship chan, urbit_channel chan, text) in
      case sink (resource_ship chan) (urbit_channel chan) text u of
        Inl e \<Rightarrow> ([call], Inl e)
      | Inr u' \<Rightarrow> (let (calls, r) = send_each sink text rest u' in (call # calls, r)))"

text \<open>
  \<open>on_pubmsg\<close>: \<open>target\<close> is \<^verbatim>\<open>e.target\<close>, \<open>source\<close> is \<^verbatim>\<open>e.source\<close> and
  \<open>argument\<close> is \<^verbatim>\<open>e.arguments[0]\<close>.
\<close>

definition on_pubmsg ::
  "(string \<Rightarrow> string \<Rightarrow> string \<Rightarrow> 'u \<Rightarrow> exn + 'u) \<Rightarrow> pairing list \<Rightarrow>
   string \<Rightarrow> string \<Rightarrow> string \<Rightarrow> 'u \<Rightarrow> (string \<times> string \<times> string) list \<times> (exn + 'u)" where
  "on_pubmsg sink instance_channels target source argument u =
     (let urbit_channels = filter (\<lambda>chan. irc_channel chan = target) instance_channels in
      if length urbit_channels > 0
      then send_each sink (source_nick source @ '': '' @ argument) urbit_channels u
      else ([], Inr u))"

section \<open>urbit\_bot.start.urbit\_message\_handler (irc\_bridge.py)\<close>

record urbit_message =
  author :: string
  host_ship :: string
  resource_name :: string
  full_text :: string

text \<open>
  \<^verbatim>\<open>self.sender.send\<close> is \<^verbatim>\<open>irc_message_putter.send\<close>, a \<^verbatim>\<open>put\<close> on the queue, which
  is created without a size limit; the queue is the list of its items, oldest first.
\<close>

definition send :: "string \<times> string \<Rightarrow> (string \<times> string) list \<Rightarrow> (string \<times> string) list" where
  "send data message_queue = message_queue @ [data]"

fun put_each ::
  "urbit_message \<Rightarrow> pairing list \<Rightarrow> (string \<times> string) list \<Rightarrow> (string \<times> string) list" where
  "put_each message [] q = q"
| "put_each message (matched_ship # rest) q =
     put_each message rest
       (if urbit_channel matched_ship = resource_name message
        then send (irc_channel matched_ship, author message @ '': '' @ full_text message) q
        else q)"

definition urbit_message_handler ::
  "pairing list \<Rightarrow> urbit_message \<Rightarrow> (string \<times> string) list \<Rightarrow> (string \<times> string) list" where
  "urbit_message_handler instance_channels message q =
     (let matched_ships =
            filter (\<lambda>ship. resource_ship ship = host_ship message) instance_channels in
      if length matched_ships > 0 then put_each message matched_ships q else q)"

section \<open>Properties of the reconnect strategy\<close>

lemma py_int_below:
  assumes "0 \<le> j" "j < 1" "0 < n"
  shows "py_int (of_int n * j) \<le> n - 1"
proof -
  have nn: "0 \<le> of_int n * j" using assms by simp
  have "of_int n * j < of_int n" using assms by simp
  then have "\<lfloor>of_int n * j\<rfloor> < n" by (simp add: floor_less_iff)
  then show ?thesis using nn by (simp add: py_int_def)
qed

lemma py_int_zero: "py_int 0 = 0"
  by (simp add: py_int_def)

lemma run_schedules:
  assumes "\<not> check_scheduled s" "attempt_count s \<le> 5"
  shows "run s jitter =
     (s\<lparr>attempt_count := Suc (Suc (attempt_count s)), check_scheduled := True\<rparr>,
      Inr (Some (backoffDelay (Suc (attempt_count s)) (min_interval s) (max_interval s) jitter)))"
  using assms by (simp add: run_def next_attempt_def backoffDelay_def Let_def max.commute)

lemma backoffDelay_upper:
  assumes "0 \<le> jitter" "jitter < 1" "0 \<le> mn" "mn < mx"
  shows "backoffDelay a mn mx jitter \<le> mx - 1"
proof -
  let ?c = "min (2 ^ a - 1) mx"
  have c: "0 \<le> ?c" "?c \<le> mx" using assms by simp_all
  have "py_int (of_int ?c * jitter) \<le> mx - 1"
  proof (cases "?c = 0")
    case True
    then show ?thesis using assms by (simp add: py_int_zero)
  next
    case False
    then have "0 < ?c" using c by linarith
    from py_int_below[OF assms(1,2) this] show ?thesis using c by linarith
  qed
  then show ?thesis using assms by (simp add: backoffDelay_def)
qed

lemma backoffDelay_lower: "mn \<le> backoffDelay a mn mx jitter"
  by (simp add: backoffDelay_def)

lemma backoffDelay_small:
  assumes "0 \<le> jitter" "jitter < 1" "a \<le> 2"
  shows "backoffDelay a 3 5 jitter = 3"
proof -
  have p1: "py_int jitter \<le> 0"
    using py_int_below[OF assms(1,2), of 1] by simp
  have p3: "py_int (3 * jitter) \<le> 2"
    using py_int_below[OF assms(1,2), of 3] by simp
  have "a = 0 \<or> a = 1 \<or> a = 2" using assms(3) by linarith
  then show ?thesis
    using p1 p3 by (auto simp: backoffDelay_def py_int_zero)
qed

lemma backoffDelay_capped: "3 \<le> a \<Longrightarrow> backoffDelay a 3 5 jitter = backoffDelay (Suc a) 3 5 jitter"
proof -
  assume a: "3 \<le> a"
  have "(2::int) ^ 3 \<le> 2 ^ a" using a by (intro power_increasing) simp_all
  moreover have "(2::int) ^ 3 \<le> 2 ^ Suc a" using a by (intro power_increasing) simp_all
  ultimately have "min ((2::int) ^ a - 1) 5 = 5" "min ((2::int) ^ Suc a - 1) 5 = 5" by simp_all
  then show ?thesis by (simp only: backoffDelay_def)
qed

lemma run_counter: "attempt_count s < attempt_count (fst (run s j))"
  by (simp add: run_def next_attempt_def Let_def)

lemma check_counter: "attempt_count s < attempt_count (fst (check s False j))"
  using run_counter[of "s\<lparr>check_scheduled := False\<rparr>" j] by (simp add: check_def)

lemma run_exhausted: "5 < attempt_count s \<Longrightarrow> snd (run s j) = Inl ircBotException"
  by (simp add: run_def next_attempt_def Let_def)

lemma check_exhausted: "5 < attempt_count s \<Longrightarrow> snd (check s False j) = Inl ircBotException"
  using run_exhausted[of "s\<lparr>check_scheduled := False\<rparr>" j] by (simp add: check_def)

lemma invoke_counter: "attempt_count s < attempt_count (fst (invoke s p))"
  by (cases "fst p") (simp_all add: invoke_def run_counter check_counter)

lemma invoke_first: "attempt_count (fst (invoke default_backoff p)) = 3"
  by (cases "fst p") (simp_all add: invoke_def run_def check_def next_attempt_def default_backoff_def Let_def)

lemma invoke_exhausted: "5 < attempt_count s \<Longrightarrow> snd (invoke s p) = Inl ircBotException"
  by (cases "fst p") (simp_all add: invoke_def run_exhausted check_exhausted)

lemma run_all_Cons: "run_all s (p # ps) = snd (invoke s p) # run_all (fst (invoke s p)) ps"
  by (simp add: split_beta)

lemma fifth_invocation_raises:
  "run_all default_backoff (p1 # p2 # p3 # p4 # p5 # ps) ! 4 = Inl ircBotException"
proof -
  let ?s1 = "fst (invoke default_backoff p1)"
  let ?s2 = "fst (invoke ?s1 p2)"
  let ?s3 = "fst (invoke ?s2 p3)"
  let ?s4 = "fst (invoke ?s3 p4)"
  have "attempt_count ?s1 = 3" by (rule invoke_first)
  moreover have "attempt_count ?s1 < attempt_count ?s2" by (rule invoke_counter)
  moreover have "attempt_count ?s2 < attempt_count ?s3" by (rule invoke_counter)
  moreover have "attempt_count ?s3 < attempt_count ?s4" by (rule invoke_counter)
  ultimately have "5 < attempt_count ?s4" by linarith
  then have "snd (invoke ?s4 p5) = Inl ircBotException" by (rule invoke_exhausted)
  then show ?thesis by (simp del: run_all.simps add: run_all_Cons)
qed

text \<open>
  C1. Six successive disconnect notifications on a fresh strategy, with no scheduled check
  firing in between: the first call schedules a check after 3 seconds, the next three
  return at once, and the fifth call already raises \<open>ircBotException\<close>, as does the
  sixth. The first call draws two values from the counter, one for the test against the
  ceiling and one for the exponent, so the fifth call reads 6.
\<close>

theorem run_six_disconnects:
  "run_all default_backoff
     [(Disconnected, 1/2), (Disconnected, 1/2), (Disconnected, 1/2),
      (Disconnected, 1/2), (Disconnected, 1/2), (Disconnected, 1/2)] =
   [Inr (Some 3), Inr None, Inr None, Inr None, Inl ircBotException, Inl ircBotException]"
  by (simp add: invoke_def run_def next_attempt_def default_backoff_def py_int_def)

text \<open>
  When the scheduled check fires between the notifications, every scheduling call draws
  two values and the fourth invocation raises.
\<close>

lemma run_six_with_checks:
  "run_all default_backoff
     [(Disconnected, 1/2), (CheckFired, 9/10), (Disconnected, 1/2),
      (CheckFired, 1/2), (Disconnected, 1/2), (CheckFired, 1/2)] =
   [Inr (Some 3), Inr (Some 4), Inr None, Inl ircBotException, Inl ircBotException,
    Inl ircBotException]"
  by (simp add: invoke_def run_def check_def next_attempt_def default_backoff_def py_int_def)

text \<open>
  C3. With the bounds 3 and 5 and a jitter draw in \<open>[0, 1)\<close>, a call of \<open>run\<close> that
  schedules a check uses the delay \<open>max(min_interval, int(min(2^attempt - 1,
  max_interval) * jitter))\<close>, jitter and truncation first and the lower bound last. Here
  \<open>attempt\<close> is the counter value drawn for the exponent, one more than the value tested
  against the ceiling; the value tested gives the same delay unless it is 2, which no
  call on a strategy started at 1 ever tests. For every attempt number the delay lies
  between 3 and 5.
\<close>

theorem run_delay_formula:
  assumes "0 \<le> jitter" and "jitter < 1"
    and "min_interval s = 3" and "max_interval s = 5"
    and "\<not> check_scheduled s" and "attempt_count s \<le> 5"
  shows "snd (run s jitter) = Inr (Some (backoffDelay (Suc (attempt_count s)) 3 5 jitter))
       \<and> (attempt_count s \<noteq> 2 \<longrightarrow>
            snd (run s jitter) = Inr (Some (backoffDelay (attempt_count s) 3 5 jitter)))
       \<and> 3 \<le> backoffDelay attempt 3 5 jitter \<and> backoffDelay attempt 3 5 jitter \<le> 5"
proof -
  have r: "snd (run s jitter) = Inr (Some (backoffDelay (Suc (attempt_count s)) 3 5 jitter))"
    using run_schedules[OF assms(5,6), of jitter] assms(3,4) by simp
  have e: "backoffDelay (attempt_count s) 3 5 jitter = backoffDelay (Suc (attempt_count s)) 3 5 jitter"
    if "attempt_count s \<noteq> 2"
  proof (cases "attempt_count s \<le> 1")
    case True
    then show ?thesis using backoffDelay_small[OF assms(1,2)] by simp
  next
    case False
    with that have "3 \<le> attempt_count s" by linarith
    then show ?thesis by (rule backoffDelay_capped)
  qed
  have "backoffDelay attempt 3 5 jitter \<le> 5 - 1"
    using backoffDelay_upper[OF assms(1,2), of 3 5 attempt] by simp
  then have u: "backoffDelay attempt 3 5 jitter \<le> 5" by linarith
  show ?thesis using r e u backoffDelay_lower[of 3 attempt 5 jitter] by simp
qed

theorem run_delay_formula_witness:
  "snd (run default_backoff (9/10)) = Inr (Some (backoffDelay 2 3 5 (9/10)))
   \<and> snd (run default_backoff (9/10)) = Inr (Some (backoffDelay 1 3 5 (9/10)))
   \<and> backoffDelay 4 3 5 (9/10) = 4 \<and> backoffDelay 2 3 5 (9/10) = 3"
  using run_delay_formula[of "9/10" default_backoff 4]
  by (simp add: default_backoff_def backoffDelay_def py_int_def)

text \<open>
  C10. For bounds accepted by the constructor with \<open>min_interval < max_interval\<close> and a
  jitter draw in \<open>[0, 1)\<close>, the delay that \<open>run\<close> schedules is at least
  \<open>min_interval\<close> and at most \<open>max_interval - 1\<close>, so it is never \<open>max_interval\<close>;
  with the bounds 3 and 5 it is 3 or 4.
\<close>

theorem run_delay_below_max:
  assumes "0 \<le> jitter" and "jitter < 1"
    and "0 \<le> min_interval s" and "min_interval s < max_interval s"
    and "\<not> check_scheduled s" and "attempt_count s \<le> 5"
  shows "\<exists>d. snd (run s jitter) = Inr (Some d)
           \<and> min_interval s \<le> d \<and> d \<le> max_interval s - 1 \<and> d \<noteq> max_interval s
           \<and> (min_interval s = 3 \<and> max_interval s = 5 \<longrightarrow> 3 \<le> d \<and> d \<le> 4)"
proof -
  let ?d = "backoffDelay (Suc (attempt_count s)) (min_interval s) (max_interval s) jitter"
  have "snd (run s jitter) = Inr (Some ?d)"
    using run_schedules[OF assms(5,6), of jitter] by simp
  moreover have "min_interval s \<le> ?d" by (rule backoffDelay_lower)
  moreover have "?d \<le> max_interval s - 1" by (rule backoffDelay_upper[OF assms(1-4)])
  ultimately show ?thesis by (intro exI[of _ ?d]) auto
qed

theorem run_delay_below_max_witness:
  "snd (run default_backoff (9/10)) = Inr (Some 3)
   \<and> snd (run (default_backoff\<lparr>attempt_count := 3\<rparr>) (9/10)) = Inr (Some 4)"
  using run_delay_below_max[of "9/10" default_backoff]
    run_delay_below_max[of "9/10" "default_backoff\<lparr>attempt_count := 3\<rparr>"]
  by (simp add: default_backoff_def run_def next_attempt_def py_int_def)


section \<open>Properties of the membership tracker\<close>

lemma channel_ok_new: "channel_ok Channel_new"
  by (simp add: channel_ok_def Channel_new_def)

lemma channel_ok_add: "channel_ok c \<Longrightarrow> channel_ok (add_user n c)"
  by (auto simp: channel_ok_def add_user_def)

lemma channel_ok_remove: "channel_ok c \<Longrightarrow> channel_ok (remove_user n c)"
  by (auto simp: channel_ok_def remove_user_def distinct_removeAll)

lemma channel_ok_change: "channel_ok c \<Longrightarrow> channel_ok (change_nick b a c)"
  by (auto simp: channel_ok_def change_nick_def Let_def distinct_removeAll split: if_splits)

lemma set_alist_update: "set (AList.update k v al) \<subseteq> insert (k, v) (set al)"
  by (induction al) auto

lemma tracker_ok_update:
  assumes "tracker_ok s" "channel_ok c"
  shows "tracker_ok (s\<lparr>channels := AList.update k c (channels s)\<rparr>)"
  using assms set_alist_update[of k c "channels s"] by (auto simp: tracker_ok_def)

lemma tracker_ok_delete:
  "tracker_ok s \<Longrightarrow> tracker_ok (s\<lparr>channels := AList.delete k (channels s)\<rparr>)"
  by (auto simp: tracker_ok_def AList.delete_eq)

lemma tracker_ok_lookup:
  "tracker_ok s \<Longrightarrow> map_of (channels s) k = Some c \<Longrightarrow> channel_ok c"
  by (auto simp: tracker_ok_def dest: map_of_SomeD)

lemma tracker_ok_map:
  assumes "tracker_ok s" "\<And>c. channel_ok c \<Longrightarrow> channel_ok (f c)"
  shows "tracker_ok (s\<lparr>channels := map (\<lambda>(name, c). (name, f c)) (channels s)\<rparr>)"
  using assms by (auto simp: tracker_ok_def)

lemma on_join_ok: "tracker_ok s \<Longrightarrow> tracker_ok (fst (on_join me ch nick s))"
  by (auto simp: on_join_def Let_def update_conv' split: option.splits
      intro!: tracker_ok_update channel_ok_add channel_ok_new dest: tracker_ok_lookup)

lemma on_part_ok: "tracker_ok s \<Longrightarrow> tracker_ok (fst (on_part me ch nick s))"
  by (auto simp: on_part_def split: option.splits
      intro!: tracker_ok_update tracker_ok_delete channel_ok_remove dest: tracker_ok_lookup)

lemma on_kick_eq_on_part: "on_kick me ch nick s = on_part me ch nick s"
  by (simp add: on_kick_def on_part_def)

lemma on_quit_ok: "tracker_ok s \<Longrightarrow> tracker_ok (fst (on_quit nick s))"
  unfolding on_quit_def fst_conv
  by (rule tracker_ok_map) (auto intro: channel_ok_remove)

lemma on_nick_ok: "tracker_ok s \<Longrightarrow> tracker_ok (fst (on_nick b a s))"
  unfolding on_nick_def fst_conv
  by (rule tracker_ok_map) (auto intro: channel_ok_change)

lemma handle_event_ok: "tracker_ok s \<Longrightarrow> tracker_ok (fst (handle_event me e s))"
  by (cases e) (simp_all add: on_join_ok on_part_ok on_kick_eq_on_part on_quit_ok on_nick_ok)

lemma states_reached_ok:
  "tracker_ok s \<Longrightarrow> s' \<in> set (states_reached s es) \<Longrightarrow> tracker_ok s'"
proof (induction es arbitrary: s)
  case Nil
  then show ?case by simp
next
  case (Cons p es)
  obtain me e where p: "p = (me, e)" by (cases p)
  obtain t x where h: "handle_event me e s = (t, x)" by (cases "handle_event me e s")
  have t: "tracker_ok t" using handle_event_ok[OF Cons.prems(1), of me e] h by simp
  from Cons.prems(2) p h consider "s' = s" | "x = None" "s' \<in> set (states_reached t es)" | "s' = t"
    by (cases x) auto
  then show ?case
  proof cases
    case 1 then show ?thesis using Cons.prems(1) by simp
  next
    case 2 then show ?thesis using Cons.IH[OF t] by simp
  next
    case 3 then show ?thesis using t by simp
  qed
qed

lemma map_of_map_channels:
  "map_of (map (\<lambda>(name, c). (name, f c)) al) k = map_option f (map_of al k)"
  by (induction al) auto

text \<open>
  C4. Whatever join, part, kick, quit and nick-change events a bot with an empty channel
  map receives, and whatever the local nickname is at each of them, in every state on the
  way no channel lists a nickname twice and every role-flag entry of a channel names one
  of its members. The handlers keep this from any state that has it, not only from the
  empty map.
\<close>

theorem tracker_invariant:
  "s \<in> set (states_reached (SingleServerIRCBot_init r) es) \<Longrightarrow> tracker_ok s"
  by (rule states_reached_ok[of "SingleServerIRCBot_init r"])
     (simp_all add: tracker_ok_def SingleServerIRCBot_init_def)

theorem tracker_invariant_witness:
  "\<lparr>channels = [(''#c'', \<lparr>members = [''me'', ''al''], role_flags = [], mode_flags = []\<rparr>)],
    recon = default_backoff\<rparr>
     \<in> set (states_reached (SingleServerIRCBot_init default_backoff)
          [(''me'', Join ''#c'' ''me''), (''me'', Join ''#c'' ''bob''),
           (''me'', Join ''#c'' ''al''), (''me'', NickChange ''bob'' ''al'')])
   \<and> tracker_ok
        \<lparr>channels = [(''#c'', \<lparr>members = [''me'', ''al''], role_flags = [], mode_flags = []\<rparr>)],
         recon = default_backoff\<rparr>"
proof -
  have m: "\<lparr>channels = [(''#c'', \<lparr>members = [''me'', ''al''], role_flags = [], mode_flags = []\<rparr>)],
    recon = default_backoff\<rparr>
     \<in> set (states_reached (SingleServerIRCBot_init default_backoff)
          [(''me'', Join ''#c'' ''me''), (''me'', Join ''#c'' ''bob''),
           (''me'', Join ''#c'' ''al''), (''me'', NickChange ''bob'' ''al'')])"
    by (simp add: SingleServerIRCBot_init_def on_join_def on_nick_def Channel_new_def
        add_user_def has_user_def change_nick_def Let_def)
  from m tracker_invariant[OF m] show ?thesis by simp
qed

text \<open>
  C5. After \<open>on_disconnect\<close> the channel map is empty, whatever it held before and
  whatever the strategy does; when the counter has passed the ceiling the strategy
  raises \<open>ircBotException\<close>, and the map is empty all the same.
\<close>

theorem disconnect_resets_channels:
  "channels (fst (on_disconnect self jitter)) = []
   \<and> (5 < attempt_count (recon self) \<longrightarrow>
        snd (on_disconnect self jitter) = Inl ircBotException)"
  using run_exhausted[of "recon self" jitter]
  by (simp add: on_disconnect_def Let_def split_beta)

theorem disconnect_resets_channels_witness:
  "channels (fst (on_disconnect
      \<lparr>channels = [(''#c'', \<lparr>members = [''me''], role_flags = [], mode_flags = []\<rparr>)],
       recon = default_backoff\<lparr>attempt_count := 6\<rparr>\<rparr> (1/2))) = []
   \<and> snd (on_disconnect
      \<lparr>channels = [(''#c'', \<lparr>members = [''me''], role_flags = [], mode_flags = []\<rparr>)],
       recon = default_backoff\<lparr>attempt_count := 6\<rparr>\<rparr> (1/2)) = Inl ircBotException"
  using disconnect_resets_channels[of
      "\<lparr>channels = [(''#c'', \<lparr>members = [''me''], role_flags = [], mode_flags = []\<rparr>)],
        recon = default_backoff\<lparr>attempt_count := 6\<rparr>\<rparr>" "1/2"]
  by (simp add: default_backoff_def)

text \<open>
  C6. After a part of the local nickname the channel has no entry in the map (when it had
  none before, the handler raises \<open>KeyError\<close> and the map is as it was). After a part
  of another nickname from a tracked channel, the entry of that channel has the member
  set without that nickname, the role-flag entries without those of that nickname and
  the same mode flags, and the entry of every other channel is the same. A kick does
  what a part does, with the kicked nickname.
\<close>

theorem leave_effect:
  "(nick = me \<longrightarrow> map_of (channels (fst (on_part me ch nick self))) ch = None)
   \<and> (nick \<noteq> me \<and> map_of (channels self) ch = Some c \<longrightarrow>
        snd (on_part me ch nick self) = None
        \<and> (\<exists>c'. map_of (channels (fst (on_part me ch nick self))) ch = Some c'
              \<and> set (members c') = set (members c) - {nick}
              \<and> set (role_flags c') = {(n, f). (n, f) \<in> set (role_flags c) \<and> n \<noteq> nick}
              \<and> mode_flags c' = mode_flags c)
        \<and> (\<forall>other. other \<noteq> ch \<longrightarrow>
              map_of (channels (fst (on_part me ch nick self))) other
                = map_of (channels self) other))
   \<and> on_kick me ch nick self = on_part me ch nick self"
  by (auto simp: on_part_def on_kick_def update_conv' delete_conv' remove_user_def
      split: option.splits)

theorem leave_effect_witness:
  "map_of (channels (fst (on_part ''me'' ''#c'' ''me''
      \<lparr>channels = [(''#c'', \<lparr>members = [''me'', ''bob''], role_flags = [(''bob'', CHR ''o'')],
                              mode_flags = []\<rparr>)],
       recon = default_backoff\<rparr>))) ''#c'' = None
   \<and> map_of (channels (fst (on_kick ''me'' ''#c'' ''bob''
      \<lparr>channels = [(''#c'', \<lparr>members = [''me'', ''bob''], role_flags = [(''bob'', CHR ''o'')],
                              mode_flags = []\<rparr>)],
       recon = default_backoff\<rparr>))) ''#c''
     = Some \<lparr>members = [''me''], role_flags = [], mode_flags = []\<rparr>"
  using leave_effect[of "''me''" "''me''" "''#c''"
      "\<lparr>channels = [(''#c'', \<lparr>members = [''me'', ''bob''], role_flags = [(''bob'', CHR ''o'')],
                              mode_flags = []\<rparr>)],
        recon = default_backoff\<rparr>"]
    leave_effect[of "''bob''" "''me''" "''#c''"
      "\<lparr>channels = [(''#c'', \<lparr>members = [''me'', ''bob''], role_flags = [(''bob'', CHR ''o'')],
                              mode_flags = []\<rparr>)],
        recon = default_backoff\<rparr>"
      "\<lparr>members = [''me'', ''bob''], role_flags = [(''bob'', CHR ''o'')], mode_flags = []\<rparr>"]
  by (simp add: on_part_def on_kick_def remove_user_def)

lemma change_nick_members:
  "set (members (change_nick before after c)) = insert after (set (members c) - {before})"
  by (auto simp: change_nick_def Let_def)

lemma change_nick_flags:
  "set (role_flags (change_nick before after c))
     = (\<lambda>(n, f). (if n = before then after else n, f)) ` set (role_flags c)"
  by (simp add: change_nick_def Let_def)

lemma change_nick_keeps_flag:
  "(before, f) \<in> set (role_flags c) \<Longrightarrow>
   (after, f) \<in> set (role_flags (change_nick before after c))"
  unfolding change_nick_flags by force

text \<open>
  C7. A nick-change raises nothing. A channel without an entry stays without one; the
  entry of a channel that does not have \<open>before\<close> is the same afterwards; in a channel
  that has \<open>before\<close>, afterwards \<open>after\<close> is a member, \<open>before\<close> is not (unless the
  two names are equal), every role-flag that \<open>before\<close> held is held by \<open>after\<close>, and
  the membership of every other nickname is the same.
\<close>

theorem nick_change_effect:
  "snd (on_nick before after self) = None
   \<and> (map_of (channels self) name = None \<longrightarrow>
        map_of (channels (fst (on_nick before after self))) name = None)
   \<and> (map_of (channels self) name = Some c \<and> \<not> has_user before c \<longrightarrow>
        map_of (channels (fst (on_nick before after self))) name = Some c)
   \<and> (map_of (channels self) name = Some c \<and> has_user before c \<longrightarrow>
        (\<exists>c'. map_of (channels (fst (on_nick before after self))) name = Some c'
           \<and> has_user after c'
           \<and> (before \<noteq> after \<longrightarrow> \<not> has_user before c')
           \<and> (\<forall>f. (before, f) \<in> set (role_flags c) \<longrightarrow> (after, f) \<in> set (role_flags c'))
           \<and> (\<forall>n. n \<noteq> before \<and> n \<noteq> after \<longrightarrow> has_user n c' = has_user n c)))"
  by (auto simp: on_nick_def map_of_map_channels has_user_def change_nick_members
      change_nick_keeps_flag)

theorem nick_change_effect_witness:
  "map_of (channels (fst (on_nick ''bob'' ''rob''
      \<lparr>channels =
         [(''#c'', \<lparr>members = [''me'', ''bob''], role_flags = [(''bob'', CHR ''o'')],
                    mode_flags = []\<rparr>),
          (''#d'', \<lparr>members = [''me'', ''al''], role_flags = [(''al'', CHR ''v'')],
                    mode_flags = []\<rparr>)],
       recon = default_backoff\<rparr>))) ''#c''
     = Some \<lparr>members = [''me'', ''rob''], role_flags = [(''rob'', CHR ''o'')], mode_flags = []\<rparr>
   \<and> map_of (channels (fst (on_nick ''bob'' ''rob''
      \<lparr>channels =
         [(''#c'', \<lparr>members = [''me'', ''bob''], role_flags = [(''bob'', CHR ''o'')],
                    mode_flags = []\<rparr>),
          (''#d'', \<lparr>members = [''me'', ''al''], role_flags = [(''al'', CHR ''v'')],
                    mode_flags = []\<rparr>)],
       recon = default_backoff\<rparr>))) ''#d''
     = Some \<lparr>members = [''me'', ''al''], role_flags = [(''al'', CHR ''v'')], mode_flags = []\<rparr>
   \<and> map_of (channels (fst (on_nick ''bob'' ''rob''
      \<lparr>channels =
         [(''#c'', \<lparr>members = [''me'', ''bob''], role_flags = [(''bob'', CHR ''o'')],
                    mode_flags = []\<rparr>),
          (''#d'', \<lparr>members = [''me'', ''al''], role_flags = [(''al'', CHR ''v'')],
                    mode_flags = []\<rparr>)],
       recon = default_backoff\<rparr>))) ''#e'' = None"
  using nick_change_effect[of "''bob''" "''rob''"
      "\<lparr>channels =
         [(''#c'', \<lparr>members = [''me'', ''bob''], role_flags = [(''bob'', CHR ''o'')],
                    mode_flags = []\<rparr>),
          (''#d'', \<lparr>members = [''me'', ''al''], role_flags = [(''al'', CHR ''v'')],
                    mode_flags = []\<rparr>)],
        recon = default_backoff\<rparr>" "''#c''"
      "\<lparr>members = [''me'', ''bob''], role_flags = [(''bob'', CHR ''o'')], mode_flags = []\<rparr>"]
  by (simp add: on_nick_def has_user_def change_nick_def)

text \<open>
  C9. A join of a nickname other than the local one on a channel without an entry raises
  \<open>KeyError\<close>: no entry is created and the nickname is a member of nothing.
\<close>

theorem join_untracked_counterexample:
  "on_join ''me'' ''#c'' ''bob'' (SingleServerIRCBot_init default_backoff)
     = (SingleServerIRCBot_init default_backoff, Some KeyError)
   \<and> map_of (channels (fst (on_join ''me'' ''#c'' ''bob''
        (SingleServerIRCBot_init default_backoff)))) ''#c'' = None"
  by (simp add: on_join_def SingleServerIRCBot_init_def)

text \<open>
  C9, as the handler has it. When the nickname is the local one or the channel has an
  entry, a join raises nothing, afterwards the nickname is a member of the channel, and
  the entry of every other channel is the same; a join of the local nickname replaces
  the entry by a new channel with that one member. When the nickname is not the local
  one and the channel has no entry, the join raises \<open>KeyError\<close> and changes nothing.
\<close>

theorem join_effect:
  "(nick = me \<or> map_of (channels self) ch \<noteq> None \<longrightarrow>
      snd (on_join me ch nick self) = None
      \<and> (\<exists>c. map_of (channels (fst (on_join me ch nick self))) ch = Some c \<and> has_user nick c)
      \<and> (\<forall>other. other \<noteq> ch \<longrightarrow>
            map_of (channels (fst (on_join me ch nick self))) other
              = map_of (channels self) other))
   \<and> (nick = me \<longrightarrow>
        map_of (channels (fst (on_join me ch nick self))) ch = Some (add_user nick Channel_new))
   \<and> (nick \<noteq> me \<and> map_of (channels self) ch = None \<longrightarrow>
        on_join me ch nick self = (self, Some KeyError))"
  by (auto simp: on_join_def Let_def update_conv' has_user_def add_user_def)

theorem join_effect_witness:
  "on_join ''me'' ''#c'' ''bob'' (SingleServerIRCBot_init default_backoff)
     = (SingleServerIRCBot_init default_backoff, Some KeyError)
   \<and> map_of (channels (fst (on_join ''me'' ''#c'' ''me''
        (SingleServerIRCBot_init default_backoff)))) ''#c''
       = Some \<lparr>members = [''me''], role_flags = [], mode_flags = []\<rparr>
   \<and> map_of (channels (fst (on_join ''me'' ''#c'' ''bob''
        \<lparr>channels = [(''#c'', \<lparr>members = [''me''], role_flags = [], mode_flags = []\<rparr>)],
         recon = default_backoff\<rparr>))) ''#c''
       = Some \<lparr>members = [''me'', ''bob''], role_flags = [], mode_flags = []\<rparr>"
  using join_effect[of "''bob''" "''me''" "SingleServerIRCBot_init default_backoff" "''#c''"]
    join_effect[of "''me''" "''me''" "SingleServerIRCBot_init default_backoff" "''#c''"]
    join_effect[of "''bob''" "''me''"
      "\<lparr>channels = [(''#c'', \<lparr>members = [''me''], role_flags = [], mode_flags = []\<rparr>)],
        recon = default_backoff\<rparr>" "''#c''"]
  by (simp add: on_join_def SingleServerIRCBot_init_def add_user_def Channel_new_def)

section \<open>Properties of the relay\<close>

lemma send_each_prefix:
  "send_each sink text ps u = (calls, r) \<Longrightarrow>
   prefix calls (map (\<lambda>p. (resource_ship p, urbit_channel p, text)) ps)"
  by (induction ps arbitrary: u calls r) (auto simp: Let_def split: sum.splits prod.splits)

lemma send_each_returns:
  "send_each sink text ps u = (calls, Inr u') \<Longrightarrow>
   calls = map (\<lambda>p. (resource_ship p, urbit_channel p, text)) ps"
  by (induction ps arbitrary: u calls) (auto simp: Let_def split: sum.splits prod.splits)

lemma send_each_nonempty: "ps \<noteq> [] \<Longrightarrow> fst (send_each sink text ps u) \<noteq> []"
  by (cases ps) (auto simp: Let_def split: sum.splits prod.splits)

lemma put_each_eq:
  "put_each m ps q = q @ map (\<lambda>p. (irc_channel p, author m @ '': '' @ full_text m))
      (filter (\<lambda>p. urbit_channel p = resource_name m) ps)"
  by (induction ps arbitrary: q) (auto simp: send_def)

lemma urbit_message_handler_eq:
  "urbit_message_handler inst m q = q @ map (\<lambda>p. (irc_channel p, author m @ '': '' @ full_text m))
      (filter (\<lambda>p. resource_ship p = host_ship m \<and> urbit_channel p = resource_name m) inst)"
proof (cases "filter (\<lambda>ship. resource_ship ship = host_ship m) inst = []")
  case True
  then have "filter (\<lambda>p. resource_ship p = host_ship m \<and> urbit_channel p = resource_name m) inst = []"
    by (auto simp: filter_empty_conv)
  with True show ?thesis by (simp add: urbit_message_handler_def)
next
  case False
  then show ?thesis
    by (simp add: urbit_message_handler_def put_each_eq Let_def conj_commute)
qed

lemma on_pubmsg_unmatched:
  "\<forall>p \<in> set inst. irc_channel p \<noteq> target \<Longrightarrow>
   on_pubmsg sink inst target source argument u = ([], Inr u)"
  by (simp add: on_pubmsg_def filter_empty_conv)

lemma on_pubmsg_matched:
  "\<exists>p \<in> set inst. irc_channel p = target \<Longrightarrow>
   on_pubmsg sink inst target source argument u =
     send_each sink (source_nick source @ '': '' @ argument)
       (filter (\<lambda>p. irc_channel p = target) inst) u"
  by (auto simp: on_pubmsg_def Let_def filter_empty_conv)

text \<open>
  What holds of the matching in both directions, whatever the sink does. \<open>on_pubmsg\<close>
  calls the sink if and only if some pairing has the message's target as its
  \<open>irc_channel\<close>. With no such pairing it makes no call, raises nothing and leaves the
  sink as it was. The calls it makes are the first ones of the list that has, in the order
  of the configuration, one call per matching pairing, with that pairing's ship and channel
  and the text \<open>nick: argument\<close>; they are the whole list when no call raises. In the
  other direction \<open>urbit_message_handler\<close> puts on the queue one item per pairing whose
  \<open>resource_ship\<close> is the message's host ship and whose \<open>urbit_channel\<close> is its
  resource name, and nothing else.
\<close>

lemma relay_iff_paired:
  "(fst (on_pubmsg sink inst target source argument u) \<noteq> [])
     = (\<exists>p \<in> set inst. irc_channel p = target)
   \<and> ((\<forall>p \<in> set inst. irc_channel p \<noteq> target) \<longrightarrow>
        on_pubmsg sink inst target source argument u = ([], Inr u))
   \<and> prefix (fst (on_pubmsg sink inst target source argument u))
        (map (\<lambda>p. (resource_ship p, urbit_channel p, source_nick source @ '': '' @ argument))
          (filter (\<lambda>p. irc_channel p = target) inst))
   \<and> (snd (on_pubmsg sink inst target source argument u) = Inr u' \<longrightarrow>
        fst (on_pubmsg sink inst target source argument u) =
          map (\<lambda>p. (resource_ship p, urbit_channel p, source_nick source @ '': '' @ argument))
            (filter (\<lambda>p. irc_channel p = target) inst))
   \<and> urbit_message_handler inst message q =
        q @ map (\<lambda>p. (irc_channel p, author message @ '': '' @ full_text message))
              (filter (\<lambda>p. resource_ship p = host_ship message
                          \<and> urbit_channel p = resource_name message) inst)"
proof (cases "\<exists>p \<in> set inst. irc_channel p = target")
  case True
  let ?ps = "filter (\<lambda>p. irc_channel p = target) inst"
  let ?text = "source_nick source @ '': '' @ argument"
  have ne: "?ps \<noteq> []" using True by (auto simp: filter_empty_conv)
  have eq: "on_pubmsg sink inst target source argument u = send_each sink ?text ?ps u"
    using True by (rule on_pubmsg_matched)
  obtain calls r where cr: "send_each sink ?text ?ps u = (calls, r)"
    by (cases "send_each sink ?text ?ps u")
  have 1: "calls \<noteq> []" using send_each_nonempty[OF ne, of sink ?text u] cr by simp
  have 2: "prefix calls (map (\<lambda>p. (resource_ship p, urbit_channel p, ?text)) ?ps)"
    using cr by (rule send_each_prefix)
  have 3: "r = Inr u' \<Longrightarrow> calls = map (\<lambda>p. (resource_ship p, urbit_channel p, ?text)) ?ps"
    using cr send_each_returns[of sink ?text ?ps u calls u'] by simp
  show ?thesis unfolding eq cr using True 1 2 3 by (simp add: urbit_message_handler_eq)
next
  case False
  then have none: "\<forall>p \<in> set inst. irc_channel p \<noteq> target" by simp
  have eq: "on_pubmsg sink inst target source argument u = ([], Inr u)"
    using none by (rule on_pubmsg_unmatched)
  show ?thesis unfolding eq using none
    by (simp add: urbit_message_handler_eq filter_empty_conv)
qed

lemma relay_iff_paired_witness:
  "on_pubmsg (send_message (fails_on ''''))
     [\<lparr>irc_channel = ''#c'', resource_ship = ''~zod'', urbit_channel = ''chat''\<rparr>,
      \<lparr>irc_channel = ''#d'', resource_ship = ''~bus'', urbit_channel = ''dev''\<rparr>,
      \<lparr>irc_channel = ''#c'', resource_ship = ''~nec'', urbit_channel = ''log''\<rparr>]
     ''#c'' ''alice!a@host'' ''hello'' urbit_client_init
   = ([(''~zod'', ''chat'', ''alice: hello''), (''~nec'', ''log'', ''alice: hello'')],
      Inr \<lparr>client = Some 0, opened = 1, deleted = [],
           posted = [(0, ''~zod'', ''chat'', ''alice: hello''),
                     (0, ''~nec'', ''log'', ''alice: hello'')]\<rparr>)
   \<and> on_pubmsg (send_message (fails_on ''''))
     [\<lparr>irc_channel = ''#c'', resource_ship = ''~zod'', urbit_channel = ''chat''\<rparr>,
      \<lparr>irc_channel = ''#d'', resource_ship = ''~bus'', urbit_channel = ''dev''\<rparr>,
      \<lparr>irc_channel = ''#c'', resource_ship = ''~nec'', urbit_channel = ''log''\<rparr>]
     ''#e'' ''alice!a@host'' ''hello'' urbit_client_init
   = ([], Inr urbit_client_init)
   \<and> urbit_message_handler
     [\<lparr>irc_channel = ''#c'', resource_ship = ''~zod'', urbit_channel = ''chat''\<rparr>,
      \<lparr>irc_channel = ''#d'', resource_ship = ''~bus'', urbit_channel = ''dev''\<rparr>,
      \<lparr>irc_channel = ''#c'', resource_ship = ''~nec'', urbit_channel = ''log''\<rparr>]
     \<lparr>author = ''~sampel'', host_ship = ''~bus'', resource_name = ''dev'', full_text = ''hi''\<rparr> []
   = [(''#d'', ''~sampel: hi'')]"
  using relay_iff_paired[of "send_message (fails_on '''')"
     "[\<lparr>irc_channel = ''#c'', resource_ship = ''~zod'', urbit_channel = ''chat''\<rparr>,
      \<lparr>irc_channel = ''#d'', resource_ship = ''~bus'', urbit_channel = ''dev''\<rparr>,
      \<lparr>irc_channel = ''#c'', resource_ship = ''~nec'', urbit_channel = ''log''\<rparr>]"
     "''#c''" "''alice!a@host''" "''hello''" urbit_client_init
     "\<lparr>client = Some 0, opened = 1, deleted = [],
           posted = [(0, ''~zod'', ''chat'', ''alice: hello''),
                     (0, ''~nec'', ''log'', ''alice: hello'')]\<rparr>"
     "\<lparr>author = ''~sampel'', host_ship = ''~bus'', resource_name = ''dev'', full_text = ''hi''\<rparr>" "[]"]
   relay_iff_paired[of "send_message (fails_on '''')"
     "[\<lparr>irc_channel = ''#c'', resource_ship = ''~zod'', urbit_channel = ''chat''\<rparr>,
      \<lparr>irc_channel = ''#d'', resource_ship = ''~bus'', urbit_channel = ''dev''\<rparr>,
      \<lparr>irc_channel = ''#c'', resource_ship = ''~nec'', urbit_channel = ''log''\<rparr>]"
     "''#e''" "''alice!a@host''" "''hello''" urbit_client_init]
  by (simp add: on_pubmsg_def send_message_def fails_on_def urbit_client_init_def connect_def
      source_nick_def urbit_message_handler_def send_def)

text \<open>
  C8. Three pairings on the channel of the message, with the wrapper of
  \<^verbatim>\<open>irc_bridge.py\<close> as the sink and a decode failure on the post for the first of them:
  \<open>on_pubmsg\<close> calls the sink for the first pairing, which returns with \<open>client\<close>
  left at \<^verbatim>\<open>None\<close>, and for the second, which raises \<open>AttributeError\<close>; the
  handler ends there, the third matching pairing is never passed to the sink, and no
  message has been posted. The message is not sent once per matching pairing.
\<close>

theorem three_pairings_decode_failure:
  "on_pubmsg (send_message (fails_at ''~zod''))
     [\<lparr>irc_channel = ''#c'', resource_ship = ''~zod'', urbit_channel = ''chat''\<rparr>,
      \<lparr>irc_channel = ''#c'', resource_ship = ''~nec'', urbit_channel = ''log''\<rparr>,
      \<lparr>irc_channel = ''#c'', resource_ship = ''~bus'', urbit_channel = ''dev''\<rparr>]
     ''#c'' ''alice!a@host'' ''hello'' urbit_client_init
   = ([(''~zod'', ''chat'', ''alice: hello''), (''~nec'', ''log'', ''alice: hello'')],
      Inl AttributeError)"
  by (simp add: on_pubmsg_def send_message_def reconnect_def fails_at_def urbit_client_init_def
      connect_def source_nick_def)

text \<open>
  C2. A sink whose \<open>post_message\<close> fails to decode on one message: that send returns,
  the old session is deleted and a new one is opened, but \<open>client\<close> is left at
  \<^verbatim>\<open>None\<close>, because \<open>reconnect\<close> assigns the value of the call of \<open>connect\<close>.
  The send of the next, different message then raises \<open>AttributeError\<close> and nothing is
  posted.
\<close>

theorem decode_failure_then_send:
  "on_pubmsg (send_message (fails_on ''alice: bad''))
     [\<lparr>irc_channel = ''#c'', resource_ship = ''~zod'', urbit_channel = ''chat''\<rparr>]
     ''#c'' ''alice!a@host'' ''bad'' urbit_client_init
   = ([(''~zod'', ''chat'', ''alice: bad'')],
      Inr \<lparr>client = None, opened = 2, deleted = [0], posted = []\<rparr>)
   \<and> on_pubmsg (send_message (fails_on ''alice: bad''))
     [\<lparr>irc_channel = ''#c'', resource_ship = ''~zod'', urbit_channel = ''chat''\<rparr>]
     ''#c'' ''alice!a@host'' ''next'' \<lparr>client = None, opened = 2, deleted = [0], posted = []\<rparr>
   = ([(''~zod'', ''chat'', ''alice: next'')], Inl AttributeError)"
  by (simp add: on_pubmsg_def send_message_def reconnect_def fails_on_def urbit_client_init_def
      connect_def source_nick_def)


end
